theory Spec2Isabelle
  imports Main
begin

section \<open>The audit agent loop of \<open>agent.py\<close>\<close>

text \<open>
  \<open>run_audit\<close> drives a language model that may request tool calls, executes each
  request against the tool session, appends the results to the conversation and repeats
  until the model answers with text or ten iterations have run.

  The two remote services are parameters of the model:
  \<^item> the language model, \<open>llm_with_tools.ainvoke(messages)\<close>, is a function of the
    history that either raises or returns a reply. Within one run the history grows
    between two invocations, so every sequence of replies is such a function;
  \<^item> the tool session, \<open>session.call_tool(name, arguments)\<close>, is a function of an
    abstract session state, the tool name and the arguments that returns a result or
    raises (with the text \<open>str(e)\<close> of the exception), and gives the next session
    state.

  A Python \<open>str\<close> is a \<open>string\<close>, one \<open>char\<close> for each character; \<open>print\<close> appends its
  argument to the list \<open>out\<close>.
\<close>

subsection \<open>Constants\<close>

definition MODEL_NAME :: string where
  "MODEL_NAME = ''gemini-2.5-flash''"

definition TARGET_URL :: string where
  "TARGET_URL = ''https://uni.sze.hu''"

definition GDPR_AUDITOR_PROMPT :: string where
  \<open>GDPR_AUDITOR_PROMPT =
     ''\<newline>You are a GDPR Compliance Auditor. \<newline>'' @
     ''Your goal is to audit the provided URL for a Cookie Consent Banner.\<newline>'' @
     ''\<newline>'' @
     ''**Instructions:**\<newline>'' @
     ''1. Navigate to the URL.\<newline>'' @
     ''2. Read the visible text on the page.\<newline>'' @
     ''3. Analyze the text you retrieved:\<newline>'' @
     ''   - Is there text mentioning "Cookies", "Privacy", or "Consent"?\<newline>'' @
     ''   - Are there "Accept" or "Reject" options visible in the text?\<newline>'' @
     ''4. Produce a FINAL REPORT summarizing your findings.\<newline>'' @
     ''\<newline>'' @
     ''Do not stop until you have retrieved the text and generated the report.\<newline>''\<close>

definition max_iterations :: nat where
  "max_iterations = 10"

subsection \<open>Messages, tool calls and tool results\<close>

text \<open>
  A tool call of a reply is the dictionary \<open>{"name", "args", "id"}\<close>; the arguments are
  passed through to the session unread, so their type is a parameter.
\<close>

datatype 'a tool_call =
  ToolCall (call_name: string) (call_args: 'a) (call_id: string)

record 'a ai_message =
  content :: string
  tool_calls :: "'a tool_call list"

datatype 'a message =
    SystemMessage string
  | HumanMessage string
  | AIMessage "'a ai_message"
  | ToolMessage (msg_content: string) (msg_tool_call_id: string) (msg_name: string)

text \<open>
  An item of a tool result either has a \<open>text\<close> attribute or has none (an image, an
  embedded resource). The \<open>content\<close> attribute of a result is \<open>None\<close> when the
  attribute is missing or \<open>None\<close>. The result of the session also carries the flag
  \<open>isError\<close>, set when the tool reports its failure in the result instead of raising;
  \<open>run_audit\<close> never reads it.
\<close>

datatype content_item = TextItem string | OtherItem

datatype tool_result =
  CallToolResult (result_content: "content_item list option") (isError: bool)

text \<open>
  A call returns, or raises an exception of class \<open>Exception\<close>, or raises one outside
  that class (\<open>asyncio.CancelledError\<close>, \<open>KeyboardInterrupt\<close>), which the handler
  of line 109 does not catch.
\<close>

datatype call_outcome =
    CallReturns tool_result
  | CallRaises string
  | CallRaisesBaseException string

datatype 'a llm_outcome = LlmRaises string | Reply "'a ai_message"

record ('a, 's) run_state =
  messages :: "'a message list"
  session :: 's
  out :: "string list"

subsection \<open>Formatting\<close>

text \<open>\<open>str(n)\<close> of a natural number, as the f-strings print it.\<close>

fun str_nat :: "nat \<Rightarrow> string" where
  "str_nat n =
     (if n < 10 then [''0123456789'' ! n]
      else str_nat (n div 10) @ [''0123456789'' ! (n mod 10)])"

declare str_nat.simps [simp del]

subsection \<open>One tool call: lines 92 to 110\<close>

text \<open>
  The \<open>for item in tool_result.content\<close> loop, with \<open>content_str\<close> as accumulator.
\<close>

fun collect_text :: "content_item list \<Rightarrow> string \<Rightarrow> string" where
  "collect_text [] content_str = content_str"
| "collect_text (TextItem t # items) content_str = collect_text items (content_str @ t)"
| "collect_text (OtherItem # items) content_str = collect_text items content_str"

definition no_text_placeholder :: string where
  "no_text_placeholder = ''Tool executed (no text output returned).''"

text \<open>
  \<open>if hasattr(tool_result, 'content') and tool_result.content\<close>: the branch is taken
  when the attribute is there and is a non-empty list.
\<close>

definition parse_content :: "tool_result \<Rightarrow> string" where
  "parse_content tool_result =
     (case result_content tool_result of
        None \<Rightarrow> no_text_placeholder
      | Some items \<Rightarrow>
          if items \<noteq> [] then collect_text items '''' else no_text_placeholder)"

definition truncation_marker :: string where
  "truncation_marker = ''... [Truncated]''"

definition truncate_content :: "string \<Rightarrow> string" where
  "truncate_content content_str =
     (if length content_str > 20000
      then take 20000 content_str @ truncation_marker
      else content_str)"

text \<open>
  The \<open>try\<close> statement: \<open>Inr\<close> the value of \<open>content_str\<close> after it, \<open>Inl\<close> the
  exception that leaves it. Parsing and truncation are inside the \<open>try\<close> block; the
  handler catches \<open>Exception\<close> and assigns the error text, and nothing follows it.
\<close>

definition tool_content_str :: "call_outcome \<Rightarrow> string + string" where
  "tool_content_str outcome =
     (case outcome of
        CallReturns tool_result \<Rightarrow> Inr (truncate_content (parse_content tool_result))
      | CallRaises e \<Rightarrow> Inr (''Error executing tool: '' @ e)
      | CallRaisesBaseException e \<Rightarrow> Inl e)"

subsection \<open>The loop over the requested tool calls: lines 85 to 117\<close>

definition executing_line :: "string \<Rightarrow> string" where
  "executing_line tool_name = ''   > Executing: '' @ tool_name"

text \<open>
  The loop returns \<open>None\<close> and the state when every request is answered, and the
  exception and the state at that point when a call raises outside \<open>Exception\<close>: the
  line of that call is printed, its message is not appended, and the requests after it
  are not executed.
\<close>

fun run_tool_calls ::
  "('s \<Rightarrow> string \<Rightarrow> 'a \<Rightarrow> call_outcome \<times> 's) \<Rightarrow> 'a tool_call list \<Rightarrow>
   ('a, 's) run_state \<Rightarrow> string option \<times> ('a, 's) run_state" where
  "run_tool_calls call_tool [] st = (None, st)"
| "run_tool_calls call_tool (tool_call # rest) st =
     (let tool_name = call_name tool_call;
          tool_args = call_args tool_call;
          tool_id = call_id tool_call;
          st1 = st\<lparr>out := out st @ [executing_line tool_name]\<rparr>;
          (outcome, session') = call_tool (session st1) tool_name tool_args
      in case tool_content_str outcome of
           Inl e \<Rightarrow> (Some e, st1\<lparr>session := session'\<rparr>)
         | Inr content_str \<Rightarrow>
             run_tool_calls call_tool rest
               (st1\<lparr>session := session',
                    messages := messages st1 @ [ToolMessage content_str tool_id tool_name]\<rparr>))"

subsection \<open>The execution loop: lines 62 to 117\<close>

text \<open>
  How the \<open>while\<close> loop is left: by \<open>break\<close> after the report was printed, by its
  condition turning false, by an exception of the model invocation (\<open>Raised\<close>), or by
  an exception outside \<open>Exception\<close> of a tool call (\<open>ToolRaised\<close>); nothing in
  \<open>run_audit\<close> catches the last two.
\<close>

datatype loop_exit = Break | CondFalse | Raised string | ToolRaised string

definition report_header :: string where
  "report_header =
     ''\<newline>'' @ replicate 20 CHR ''='' @ '' GDPR AUDIT REPORT '' @ replicate 20 CHR ''='' @ ''\<newline>''"

definition report_footer :: string where
  "report_footer = ''\<newline>'' @ replicate 60 CHR ''=''"

definition step_line :: "nat \<Rightarrow> nat \<Rightarrow> string" where
  "step_line iteration n =
     ''Step '' @ str_nat iteration @ '': Agent wants to use '' @ str_nat n @ '' tool(s)...''"

function execution_loop ::
  "('a message list \<Rightarrow> 'a llm_outcome) \<Rightarrow> ('s \<Rightarrow> string \<Rightarrow> 'a \<Rightarrow> call_outcome \<times> 's) \<Rightarrow>
   nat \<Rightarrow> ('a, 's) run_state \<Rightarrow> loop_exit \<times> nat \<times> ('a, 's) run_state" where
  "execution_loop llm call_tool iteration st =
     (if iteration < max_iterations then
        (let iteration' = iteration + 1 in
         case llm (messages st) of
           LlmRaises e \<Rightarrow> (Raised e, iteration', st)
         | Reply response \<Rightarrow>
             (let st1 = st\<lparr>messages := messages st @ [AIMessage response]\<rparr> in
              if tool_calls response = [] then
                (Break, iteration',
                 st1\<lparr>out := out st1 @ [report_header, content response, report_footer]\<rparr>)
              else
                (case run_tool_calls call_tool (tool_calls response)
                        (st1\<lparr>out := out st1 @
                           [step_line iteration' (length (tool_calls response))]\<rparr>) of
                   (Some e, st2) \<Rightarrow> (ToolRaised e, iteration', st2)
                 | (None, st2) \<Rightarrow> execution_loop llm call_tool iteration' st2)))
      else (CondFalse, iteration, st))"
  by pat_completeness auto
termination
  by (relation "measure (\<lambda>(llm, call_tool, iteration, st). max_iterations - iteration)") auto

declare execution_loop.simps [simp del]

subsection \<open>The run: lines 44 to 120\<close>

definition stuck_diagnostic :: string where
  "stuck_diagnostic = ''Max iterations reached. Agent got stuck in a loop.''"

text \<open>
  The run from the point where the session is initialised and \<open>n_tools\<close> tools are
  loaded. An exception that leaves the loop leaves the function before the check at
  line 119.
\<close>

definition run_audit ::
  "('a message list \<Rightarrow> 'a llm_outcome) \<Rightarrow> ('s \<Rightarrow> string \<Rightarrow> 'a \<Rightarrow> call_outcome \<times> 's) \<Rightarrow>
   nat \<Rightarrow> 's \<Rightarrow> loop_exit \<times> nat \<times> ('a, 's) run_state" where
  "run_audit llm call_tool n_tools session0 =
     (let st0 = \<lparr>messages =
                   [SystemMessage GDPR_AUDITOR_PROMPT,
                    HumanMessage (''Audit this URL: '' @ TARGET_URL)],
                 session = session0,
                 out =
                   [''Connecting to Chrome DevTools MCP...'',
                    ''Tools Loaded: '' @ str_nat n_tools @ '' available.'',
                    ''\<newline>Starting Audit for '' @ TARGET_URL @ ''...\<newline>'']\<rparr>;
          (exit, iteration, st) = execution_loop llm call_tool 0 st0
      in case exit of
           Raised e \<Rightarrow> (exit, iteration, st)
         | ToolRaised e \<Rightarrow> (exit, iteration, st)
         | _ \<Rightarrow>
             if iteration \<ge> max_iterations
             then (exit, iteration, st\<lparr>out := out st @ [stuck_diagnostic]\<rparr>)
             else (exit, iteration, st))"

section \<open>Vocabulary of the properties\<close>

text \<open>
  The number of assistant messages of a history, and the textual parts of a tool result
  in their order.
\<close>

fun is_ai_message :: "'a message \<Rightarrow> bool" where
  "is_ai_message (AIMessage r) = True"
| "is_ai_message m = False"

definition ai_count :: "'a message list \<Rightarrow> nat" where
  "ai_count ms = length (filter is_ai_message ms)"

fun text_parts :: "content_item list \<Rightarrow> string list" where
  "text_parts [] = []"
| "text_parts (TextItem t # items) = t # text_parts items"
| "text_parts (OtherItem # items) = text_parts items"

text \<open>
  The answers to a list of requests, as the tool dispatcher of the specification gives
  them: each request, in its order, is invoked on the session that the request before it
  left and is answered by a tool message with its identifier and its name; an exception
  outside \<open>Exception\<close> ends the list. The result is the answers, the session left and
  that exception, if any. \<open>executed\<close> is the part of the requests that was invoked.
\<close>

fun dispatch ::
  "('s \<Rightarrow> string \<Rightarrow> 'a \<Rightarrow> call_outcome \<times> 's) \<Rightarrow> 's \<Rightarrow> 'a tool_call list \<Rightarrow>
   'a message list \<times> 's \<times> string option" where
  "dispatch call_tool s [] = ([], s, None)"
| "dispatch call_tool s (tc # rest) =
     (case call_tool s (call_name tc) (call_args tc) of
        (outcome, s1) \<Rightarrow>
          (case tool_content_str outcome of
             Inl e \<Rightarrow> ([], s1, Some e)
           | Inr c \<Rightarrow>
               (case dispatch call_tool s1 rest of
                  (zs, s', raised) \<Rightarrow>
                    (ToolMessage c (call_id tc) (call_name tc) # zs, s', raised))))"

definition executed :: "'a tool_call list \<Rightarrow> 'a message list \<Rightarrow> string option \<Rightarrow> 'a tool_call list" where
  "executed calls zs raised =
     (case raised of None \<Rightarrow> calls | Some e \<Rightarrow> take (Suc (length zs)) calls)"

text \<open>
  What the result of the execution loop shows when the loop came to its head with a
  counter and a state. At the bound the result is that counter and state with exit
  \<open>CondFalse\<close>. Below the bound the model was invoked on the history of the state: when
  it raised, the result is that state with exit \<open>Raised\<close>; when it replied, the reply
  is the next message of the resulting history, the printed lines of the state begin
  the resulting output, and the counter went on.
\<close>

definition reaches_loop_head ::
  "('a message list \<Rightarrow> 'a llm_outcome) \<Rightarrow> nat \<Rightarrow> ('a, 's) run_state \<Rightarrow>
   loop_exit \<times> nat \<times> ('a, 's) run_state \<Rightarrow> bool" where
  "reaches_loop_head llm iteration st result =
     (if iteration < max_iterations then
        (case llm (messages st) of
           LlmRaises e \<Rightarrow> result = (Raised e, Suc iteration, st)
         | Reply r \<Rightarrow>
             Suc iteration \<le> fst (snd result) \<and>
             take (Suc (length (messages st))) (messages (snd (snd result))) =
               messages st @ [AIMessage r] \<and>
             take (length (out st)) (out (snd (snd result))) = out st)
      else result = (CondFalse, iteration, st))"

subsection \<open>Concrete runs\<close>

text \<open>
  Replies, models and tool sessions on which the properties are evaluated: a model that
  requests one snapshot until the history holds \<open>k\<close> assistant messages and answers
  then, a reply with text beside two requests, and sessions that return a short text,
  two texts around an image, an image alone, a text of \<open>n\<close> characters, a result
  flagged as an error, or raise inside or outside \<open>Exception\<close>.
\<close>

definition snapshot_request :: "unit ai_message" where
  "snapshot_request = \<lparr>content = '''', tool_calls = [ToolCall ''take_snapshot'' () ''call_1'']\<rparr>"

definition final_answer :: "unit ai_message" where
  "final_answer = \<lparr>content = ''FINAL REPORT: a cookie banner is shown.'', tool_calls = []\<rparr>"

definition llm_answers_after :: "nat \<Rightarrow> unit message list \<Rightarrow> unit llm_outcome" where
  "llm_answers_after k history =
     (if ai_count history < k then Reply snapshot_request else Reply final_answer)"

definition two_requests :: "unit ai_message" where
  "two_requests =
     \<lparr>content = ''I will click, then read.'',
      tool_calls = [ToolCall ''click'' () ''call_1'', ToolCall ''take_snapshot'' () ''call_2'']\<rparr>"

definition llm_two_requests_then_answer :: "unit message list \<Rightarrow> unit llm_outcome" where
  "llm_two_requests_then_answer history =
     (if ai_count history < 1 then Reply two_requests else Reply final_answer)"

definition llm_blank_requests_then_answer :: "unit message list \<Rightarrow> unit llm_outcome" where
  "llm_blank_requests_then_answer history =
     (if ai_count history < 1 then Reply (two_requests\<lparr>content := ''''\<rparr>) else Reply final_answer)"

definition start_state :: "(unit, unit) run_state" where
  "start_state = \<lparr>messages = [HumanMessage ''Audit''], session = (), out = []\<rparr>"

definition session_hello :: "unit \<Rightarrow> string \<Rightarrow> unit \<Rightarrow> call_outcome \<times> unit" where
  "session_hello s tool_name tool_args =
     (CallReturns (CallToolResult (Some [TextItem ''Hello'']) False), s)"

definition session_click_fails :: "unit \<Rightarrow> string \<Rightarrow> unit \<Rightarrow> call_outcome \<times> unit" where
  "session_click_fails s tool_name tool_args =
     (if tool_name = ''click'' then (CallRaises ''element not found'', s)
      else (CallReturns (CallToolResult (Some [TextItem ''Hello'']) False), s))"

definition session_click_returns_error ::
  "unit \<Rightarrow> string \<Rightarrow> unit \<Rightarrow> call_outcome \<times> unit" where
  "session_click_returns_error s tool_name tool_args =
     (if tool_name = ''click''
      then (CallReturns (CallToolResult (Some [TextItem ''element not found'']) True), s)
      else (CallReturns (CallToolResult (Some [TextItem ''Hello'']) False), s))"

definition session_click_cancelled ::
  "unit \<Rightarrow> string \<Rightarrow> unit \<Rightarrow> call_outcome \<times> unit" where
  "session_click_cancelled s tool_name tool_args =
     (if tool_name = ''click'' then (CallRaisesBaseException '''', s)
      else (CallReturns (CallToolResult (Some [TextItem ''Hello'']) False), s))"

definition session_long_error :: "unit \<Rightarrow> string \<Rightarrow> unit \<Rightarrow> call_outcome \<times> unit" where
  "session_long_error s tool_name tool_args = (CallRaises (replicate 20000 CHR ''x''), s)"

definition session_image_only :: "unit \<Rightarrow> string \<Rightarrow> unit \<Rightarrow> call_outcome \<times> unit" where
  "session_image_only s tool_name tool_args =
     (CallReturns (CallToolResult (Some [OtherItem]) False), s)"

definition session_long_text :: "nat \<Rightarrow> unit \<Rightarrow> string \<Rightarrow> unit \<Rightarrow> call_outcome \<times> unit" where
  "session_long_text n s tool_name tool_args =
     (CallReturns (CallToolResult (Some [TextItem (replicate n CHR ''a'')]) False), s)"

definition session_two_texts :: "unit \<Rightarrow> string \<Rightarrow> unit \<Rightarrow> call_outcome \<times> unit" where
  "session_two_texts s tool_name tool_args =
     (CallReturns
        (CallToolResult (Some [TextItem ''Hello, '', OtherItem, TextItem ''world'']) False), s)"

section \<open>Properties of one tool call\<close>

subsection \<open>Truncation\<close>

lemma length_truncation_marker: "length truncation_marker = 15"
  by (simp add: truncation_marker_def)

lemma truncate_content_short: "length s \<le> 20000 \<Longrightarrow> truncate_content s = s"
  by (simp add: truncate_content_def)

lemma truncate_content_long:
  "20000 < length s \<Longrightarrow> truncate_content s = take 20000 s @ truncation_marker"
  by (simp add: truncate_content_def)

lemma length_truncate_content: "length (truncate_content s) \<le> 20000 + length truncation_marker"
  by (simp add: truncate_content_def)

text \<open>
  C5. Truncation is idempotent: for every string, applying lines 106 to 107 to their own
  result gives that result again, and every result has at most 20000 characters plus
  the length of the marker \<open>... [Truncated]\<close>.
\<close>

theorem truncate_content_idempotent:
  "truncate_content (truncate_content s) = truncate_content s \<and>
   length (truncate_content s) \<le> 20000 + length truncation_marker"
proof (cases "20000 < length s")
  case True
  then have once: "truncate_content s = take 20000 s @ truncation_marker"
    by (rule truncate_content_long)
  have "20000 < length (take 20000 s @ truncation_marker)"
    using True by (simp add: length_truncation_marker)
  then have "truncate_content (take 20000 s @ truncation_marker) =
      take 20000 (take 20000 s @ truncation_marker) @ truncation_marker"
    by (rule truncate_content_long)
  also have "\<dots> = take 20000 s @ truncation_marker"
    using True by simp
  finally show ?thesis
    using once True by (simp add: length_truncation_marker)
next
  case False
  then have "truncate_content s = s"
    by (simp add: truncate_content_short)
  then show ?thesis
    using False by simp
qed

subsection \<open>Parsing\<close>

lemma collect_text_acc: "collect_text items acc = acc @ collect_text items ''''"
proof (induction items arbitrary: acc)
  case Nil
  show ?case by simp
next
  case (Cons item items)
  show ?case
  proof (cases item)
    case (TextItem t)
    have "collect_text (item # items) acc = (acc @ t) @ collect_text items ''''"
      using Cons.IH [of "acc @ t"] TextItem by simp
    moreover have "collect_text (item # items) '''' = t @ collect_text items ''''"
      using Cons.IH [of t] TextItem by simp
    ultimately show ?thesis by simp
  next
    case OtherItem
    then show ?thesis using Cons.IH [of acc] by simp
  qed
qed

lemma collect_text_text_parts: "collect_text items '''' = concat (text_parts items)"
proof (induction items)
  case Nil
  show ?case by simp
next
  case (Cons item items)
  show ?case
  proof (cases item)
    case (TextItem t)
    then show ?thesis
      using Cons.IH collect_text_acc [of items t] by simp
  next
    case OtherItem
    then show ?thesis
      using Cons.IH by simp
  qed
qed

lemma parse_content_items:
  "result_content tool_result = Some items \<Longrightarrow> items \<noteq> [] \<Longrightarrow>
     parse_content tool_result = concat (text_parts items)"
  by (simp add: parse_content_def collect_text_text_parts)

lemma parse_content_empty:
  "result_content tool_result = None \<or> result_content tool_result = Some [] \<Longrightarrow>
     parse_content tool_result = no_text_placeholder"
  by (auto simp add: parse_content_def)

lemma length_no_text_placeholder: "length no_text_placeholder = 40"
  by (simp add: no_text_placeholder_def)

section \<open>Properties of the loop over the tool calls\<close>

lemma run_tool_calls_append:
  "run_tool_calls call_tool (xs @ ys) st =
     (case run_tool_calls call_tool xs st of
        (None, st') \<Rightarrow> run_tool_calls call_tool ys st'
      | (Some e, st') \<Rightarrow> (Some e, st'))"
  by (induction xs arbitrary: st) (simp_all add: Let_def split: prod.splits sum.splits)

text \<open>
  The request at any position of the list, when the requests in front of it were
  answered: its message is appended before the remaining requests run, or its exception
  outside \<open>Exception\<close> ends the loop.
\<close>

lemma run_tool_calls_at:
  assumes "calls = before @ tc # after"
    and "run_tool_calls call_tool before st = (None, st_before)"
    and "call_tool (session st_before) (call_name tc) (call_args tc) = (outcome, s')"
    and "tool_content_str outcome = Inr c"
  shows "run_tool_calls call_tool calls st =
     run_tool_calls call_tool after
       (st_before\<lparr>out := out st_before @ [executing_line (call_name tc)],
                  session := s',
                  messages := messages st_before @
                    [ToolMessage c (call_id tc) (call_name tc)]\<rparr>)"
  using assms by (simp add: run_tool_calls_append Let_def)

lemma run_tool_calls_raised_at:
  assumes "calls = before @ tc # after"
    and "run_tool_calls call_tool before st = (None, st_before)"
    and "call_tool (session st_before) (call_name tc) (call_args tc) = (outcome, s')"
    and "tool_content_str outcome = Inl e"
  shows "run_tool_calls call_tool calls st =
     (Some e, st_before\<lparr>out := out st_before @ [executing_line (call_name tc)],
                        session := s'\<rparr>)"
  using assms by (simp add: run_tool_calls_append Let_def)

text \<open>
  The loop appends the answers to the history, leaves their session and prints one line
  for each request that was invoked.
\<close>

lemma dispatch_length:
  "dispatch call_tool s calls = (zs, s', raised) \<Longrightarrow>
     (case raised of None \<Rightarrow> length zs = length calls | Some e \<Rightarrow> length zs < length calls)"
proof (induction calls arbitrary: s zs s' raised)
  case Nil
  then show ?case by simp
next
  case (Cons tc calls)
  obtain outcome s1 where call: "call_tool s (call_name tc) (call_args tc) = (outcome, s1)"
    by (cases "call_tool s (call_name tc) (call_args tc)")
  show ?case
  proof (cases "tool_content_str outcome")
    case (Inl e)
    then show ?thesis
      using Cons.prems call by auto
  next
    case (Inr c)
    obtain zs1 s2 raised1 where rest: "dispatch call_tool s1 calls = (zs1, s2, raised1)"
      by (cases "dispatch call_tool s1 calls")
    then have "zs = ToolMessage c (call_id tc) (call_name tc) # zs1" and "raised = raised1"
      using Cons.prems call Inr by simp_all
    then show ?thesis
      using Cons.IH [OF rest] by (cases raised1) simp_all
  qed
qed

lemma dispatch_nth:
  "dispatch call_tool s calls = (zs, s', raised) \<Longrightarrow> i < length zs \<Longrightarrow>
     \<exists>c. zs ! i = ToolMessage c (call_id (calls ! i)) (call_name (calls ! i))"
proof (induction calls arbitrary: s zs s' raised i)
  case Nil
  then show ?case by simp
next
  case (Cons tc calls)
  obtain outcome s1 where call: "call_tool s (call_name tc) (call_args tc) = (outcome, s1)"
    by (cases "call_tool s (call_name tc) (call_args tc)")
  show ?case
  proof (cases "tool_content_str outcome")
    case (Inl e)
    then show ?thesis
      using Cons.prems call by auto
  next
    case (Inr c)
    obtain zs1 s2 raised1 where rest: "dispatch call_tool s1 calls = (zs1, s2, raised1)"
      by (cases "dispatch call_tool s1 calls")
    then have zs: "zs = ToolMessage c (call_id tc) (call_name tc) # zs1"
      using Cons.prems(1) call Inr by simp
    show ?thesis
    proof (cases i)
      case 0
      then show ?thesis using zs by simp
    next
      case (Suc j)
      then have "j < length zs1"
        using Cons.prems(2) zs by simp
      then show ?thesis
        using Cons.IH [OF rest] zs Suc by simp
    qed
  qed
qed

lemma run_tool_calls_dispatch:
  "dispatch call_tool s calls = (zs, s', raised) \<Longrightarrow>
     run_tool_calls call_tool calls \<lparr>messages = ms, session = s, out = ou\<rparr> =
       (raised,
        \<lparr>messages = ms @ zs, session = s',
         out = ou @ map (\<lambda>tc. executing_line (call_name tc)) (executed calls zs raised)\<rparr>)"
proof (induction calls arbitrary: s zs s' raised ms ou)
  case Nil
  then show ?case by (simp add: executed_def)
next
  case (Cons tc calls)
  obtain outcome s1 where call: "call_tool s (call_name tc) (call_args tc) = (outcome, s1)"
    by (cases "call_tool s (call_name tc) (call_args tc)")
  show ?case
  proof (cases "tool_content_str outcome")
    case (Inl e)
    then show ?thesis
      using Cons.prems call by (auto simp add: Let_def executed_def)
  next
    case (Inr c)
    obtain zs1 s2 raised1 where rest: "dispatch call_tool s1 calls = (zs1, s2, raised1)"
      by (cases "dispatch call_tool s1 calls")
    then have zs: "zs = ToolMessage c (call_id tc) (call_name tc) # zs1"
      and s': "s' = s2" and raised: "raised = raised1"
      using Cons.prems call Inr by simp_all
    have "executed (tc # calls) zs raised = tc # executed calls zs1 raised1"
      using zs raised by (cases raised1) (simp_all add: executed_def)
    then show ?thesis
      using Cons.IH [OF rest, of "ms @ [ToolMessage c (call_id tc) (call_name tc)]"
          "ou @ [executing_line (call_name tc)]"] call Inr zs s' raised
      by (simp add: Let_def)
  qed
qed

lemma ai_count_append: "ai_count (xs @ ys) = ai_count xs + ai_count ys"
  by (simp add: ai_count_def)

lemma ai_count_simps:
  "ai_count [] = 0"
  "ai_count (AIMessage r # ms) = Suc (ai_count ms)"
  "ai_count (SystemMessage t # ms) = ai_count ms"
  "ai_count (HumanMessage t # ms) = ai_count ms"
  "ai_count (ToolMessage c i n # ms) = ai_count ms"
  by (simp_all add: ai_count_def)

lemma run_tool_calls_messages:
  "run_tool_calls call_tool calls st = (raised, st') \<Longrightarrow>
     (\<exists>zs. messages st' = messages st @ zs \<and> ai_count zs = 0) \<and>
     (\<exists>ps. out st' = out st @ ps)"
proof (induction calls arbitrary: st)
  case Nil
  then show ?case by (simp add: ai_count_simps)
next
  case (Cons tc calls)
  obtain outcome s1 where call:
    "call_tool (session st) (call_name tc) (call_args tc) = (outcome, s1)"
    by (cases "call_tool (session st) (call_name tc) (call_args tc)")
  show ?case
  proof (cases "tool_content_str outcome")
    case (Inl e)
    then show ?thesis
      using Cons.prems call by (auto simp add: Let_def ai_count_simps)
  next
    case (Inr c)
    let ?st = "st\<lparr>out := out st @ [executing_line (call_name tc)], session := s1,
        messages := messages st @ [ToolMessage c (call_id tc) (call_name tc)]\<rparr>"
    have "run_tool_calls call_tool calls ?st = (raised, st')"
      using Cons.prems call Inr by (simp add: Let_def)
    from Cons.IH [OF this] obtain zs ps where
      "messages st' = messages ?st @ zs" and "ai_count zs = 0" and "out st' = out ?st @ ps"
      by blast
    then have "messages st' = messages st @ ToolMessage c (call_id tc) (call_name tc) # zs \<and>
        ai_count (ToolMessage c (call_id tc) (call_name tc) # zs) = 0 \<and>
        out st' = out st @ executing_line (call_name tc) # ps"
      by (simp add: ai_count_simps)
    then show ?thesis by blast
  qed
qed

text \<open>
  C6. The claim is that every appended tool message, also one that holds an error text,
  has at most 20000 characters plus the marker. The branch of a returned result bounds
  \<open>content_str\<close> in lines 106 to 107; the handler of line 110 assigns the error text
  after them and nothing bounds it: an exception with a message of 20000 characters
  gives a tool message of 20022 characters.
\<close>

theorem error_content_exceeds_bound:
  "run_tool_calls session_long_error [ToolCall ''click'' () ''call_1''] start_state =
     (None,
      \<lparr>messages =
         [HumanMessage ''Audit'',
          ToolMessage (''Error executing tool: '' @ replicate 20000 CHR ''x'') ''call_1'' ''click''],
       session = (),
       out = [executing_line ''click'']\<rparr>) \<and>
   \<not> length (''Error executing tool: '' @ replicate 20000 CHR ''x'') \<le>
       20000 + length truncation_marker"
  by (simp add: session_long_error_def start_state_def tool_content_str_def
      length_truncation_marker Let_def)

text \<open>
  C7, the claim as stated: the content of the tool message of a successful call is the
  concatenation of the textual parts, and the placeholder whenever there is no textual
  part. A result that holds an image alone has no textual part and gives the empty
  string, and a text of 20001 characters is cut to 20000 characters and the marker.
\<close>

theorem content_is_not_always_the_concatenation:
  "run_tool_calls session_image_only [ToolCall ''take_screenshot'' () ''call_1''] start_state =
     (None,
      \<lparr>messages = [HumanMessage ''Audit'', ToolMessage '''' ''call_1'' ''take_screenshot''],
       session = (),
       out = [executing_line ''take_screenshot'']\<rparr>) \<and>
   text_parts [OtherItem] = [] \<and>
   '''' \<noteq> no_text_placeholder \<and>
   run_tool_calls (session_long_text 20001) [ToolCall ''take_snapshot'' () ''call_1''] start_state =
     (None,
      \<lparr>messages =
         [HumanMessage ''Audit'',
          ToolMessage (replicate 20000 CHR ''a'' @ truncation_marker) ''call_1'' ''take_snapshot''],
       session = (),
       out = [executing_line ''take_snapshot'']\<rparr>) \<and>
   concat (text_parts [TextItem (replicate 20001 CHR ''a'')]) = replicate 20001 CHR ''a'' \<and>
   length (replicate 20000 CHR ''a'' @ truncation_marker) \<noteq> length (replicate 20001 CHR ''a'')"
  by (simp add: session_image_only_def session_long_text_def start_state_def
      tool_content_str_def parse_content_def truncate_content_def no_text_placeholder_def
      length_truncation_marker Let_def)

text \<open>
  C7, amended. For every successful tool call, the content of its tool message is the
  truncation of lines 106 to 107 applied to the in-order concatenation of the textual
  parts when the result has at least one textual part, and it is the placeholder, which
  is not empty, when the content of the result is missing or an empty list.
\<close>

theorem successful_tool_content:
  assumes "calls = before @ tc # after"
    and "run_tool_calls call_tool before st = (None, st_before)"
    and "call_tool (session st_before) (call_name tc) (call_args tc) = (CallReturns tool_result, s')"
  shows "\<exists>c.
     run_tool_calls call_tool calls st =
       run_tool_calls call_tool after
         (st_before\<lparr>out := out st_before @ [executing_line (call_name tc)],
                    session := s',
                    messages := messages st_before @
                      [ToolMessage c (call_id tc) (call_name tc)]\<rparr>) \<and>
     (\<forall>items. result_content tool_result = Some items \<and> text_parts items \<noteq> [] \<longrightarrow>
        c = truncate_content (concat (text_parts items))) \<and>
     (result_content tool_result = None \<or> result_content tool_result = Some [] \<longrightarrow>
        c = no_text_placeholder \<and> c \<noteq> '''')"
proof -
  let ?c = "truncate_content (parse_content tool_result)"
  have c: "tool_content_str (CallReturns tool_result) = Inr ?c"
    by (simp add: tool_content_str_def)
  have texts: "\<forall>items. result_content tool_result = Some items \<and> text_parts items \<noteq> [] \<longrightarrow>
      ?c = truncate_content (concat (text_parts items))"
  proof (intro allI impI)
    fix items
    assume a: "result_content tool_result = Some items \<and> text_parts items \<noteq> []"
    then have "items \<noteq> []"
      by auto
    then show "?c = truncate_content (concat (text_parts items))"
      using a by (simp add: parse_content_items)
  qed
  have none: "result_content tool_result = None \<or> result_content tool_result = Some [] \<longrightarrow>
      ?c = no_text_placeholder \<and> ?c \<noteq> ''''"
  proof
    assume "result_content tool_result = None \<or> result_content tool_result = Some []"
    then have "parse_content tool_result = no_text_placeholder"
      by (rule parse_content_empty)
    then have "?c = no_text_placeholder"
      by (simp add: truncate_content_short length_no_text_placeholder)
    then show "?c = no_text_placeholder \<and> ?c \<noteq> ''''"
      by (simp add: no_text_placeholder_def)
  qed
  show ?thesis
    using run_tool_calls_at [OF assms c] texts none by blast
qed

theorem successful_tool_content_witness:
  "[ToolCall ''take_snapshot'' () ''call_1''] = [] @ ToolCall ''take_snapshot'' () ''call_1'' # [] \<and>
   run_tool_calls session_two_texts [] start_state = (None, start_state) \<and>
   session_two_texts (session start_state) ''take_snapshot'' () =
     (CallReturns (CallToolResult (Some [TextItem ''Hello, '', OtherItem, TextItem ''world'']) False), ()) \<and>
   text_parts [TextItem ''Hello, '', OtherItem, TextItem ''world''] \<noteq> [] \<and>
   (\<exists>c.
     run_tool_calls session_two_texts [ToolCall ''take_snapshot'' () ''call_1''] start_state =
       run_tool_calls session_two_texts []
         (start_state\<lparr>out := out start_state @ [executing_line ''take_snapshot''],
                    session := (),
                    messages := messages start_state @
                      [ToolMessage c ''call_1'' ''take_snapshot'']\<rparr>) \<and>
     c = ''Hello, world'')"
proof -
  have h1: "[ToolCall ''take_snapshot'' () ''call_1''] =
      [] @ ToolCall ''take_snapshot'' () ''call_1'' # []"
    by simp
  have h2: "run_tool_calls session_two_texts [] start_state = (None, start_state)"
    by simp
  have h3: "session_two_texts (session start_state)
      (call_name (ToolCall ''take_snapshot'' () ''call_1''))
      (call_args (ToolCall ''take_snapshot'' () ''call_1'')) =
      (CallReturns (CallToolResult (Some [TextItem ''Hello, '', OtherItem, TextItem ''world'']) False), ())"
    by (simp add: session_two_texts_def)
  have h4: "text_parts [TextItem ''Hello, '', OtherItem, TextItem ''world''] \<noteq> []"
    by simp
  show ?thesis
    using successful_tool_content [OF h1 h2 h3] h2 h3 h4
    by (simp add: truncate_content_def)
qed

text \<open>
  C8. A successful tool call whose textual parts concatenate to 25000 characters
  \<open>a\<close> gets the tool message whose content is 20000 characters \<open>a\<close> followed by
  \<open>... [Truncated]\<close>, whatever the session, the history, the request and the split of
  the text into parts are: the content is a function of the tool output alone.
\<close>

theorem long_output_is_truncated:
  assumes "calls = before @ tc # after"
    and "run_tool_calls call_tool before st = (None, st_before)"
    and "call_tool (session st_before) (call_name tc) (call_args tc) = (CallReturns tool_result, s')"
    and "result_content tool_result = Some items"
    and "concat (text_parts items) = replicate 25000 CHR ''a''"
  shows "run_tool_calls call_tool calls st =
     run_tool_calls call_tool after
       (st_before\<lparr>out := out st_before @ [executing_line (call_name tc)],
                  session := s',
                  messages := messages st_before @
                    [ToolMessage (replicate 20000 CHR ''a'' @ ''... [Truncated]'')
                       (call_id tc) (call_name tc)]\<rparr>)"
proof -
  have "items \<noteq> []"
    using assms(5) by auto
  then have "parse_content tool_result = replicate 25000 CHR ''a''"
    using assms(4) assms(5) by (simp add: parse_content_items)
  then have "tool_content_str (CallReturns tool_result) =
      Inr (replicate 20000 CHR ''a'' @ ''... [Truncated]'')"
    by (simp add: tool_content_str_def truncate_content_def truncation_marker_def)
  then show ?thesis
    by (rule run_tool_calls_at [OF assms(1) assms(2) assms(3)])
qed

theorem long_output_is_truncated_witness:
  "[ToolCall ''take_snapshot'' () ''call_1''] = [] @ ToolCall ''take_snapshot'' () ''call_1'' # [] \<and>
   run_tool_calls (session_long_text 25000) [] start_state = (None, start_state) \<and>
   session_long_text 25000 (session start_state) ''take_snapshot'' () =
     (CallReturns (CallToolResult (Some [TextItem (replicate 25000 CHR ''a'')]) False), ()) \<and>
   concat (text_parts [TextItem (replicate 25000 CHR ''a'')]) = replicate 25000 CHR ''a'' \<and>
   run_tool_calls (session_long_text 25000) [ToolCall ''take_snapshot'' () ''call_1''] start_state =
     (None,
      \<lparr>messages =
         [HumanMessage ''Audit'',
          ToolMessage (replicate 20000 CHR ''a'' @ ''... [Truncated]'') ''call_1'' ''take_snapshot''],
       session = (),
       out = [executing_line ''take_snapshot'']\<rparr>)"
proof -
  have h1: "[ToolCall ''take_snapshot'' () ''call_1''] =
      [] @ ToolCall ''take_snapshot'' () ''call_1'' # []"
    by simp
  have h2: "run_tool_calls (session_long_text 25000) [] start_state = (None, start_state)"
    by simp
  have h3: "session_long_text 25000 (session start_state)
      (call_name (ToolCall ''take_snapshot'' () ''call_1''))
      (call_args (ToolCall ''take_snapshot'' () ''call_1'')) =
      (CallReturns (CallToolResult (Some [TextItem (replicate 25000 CHR ''a'')]) False), ())"
    by (simp add: session_long_text_def)
  have h4: "result_content (CallToolResult (Some [TextItem (replicate 25000 CHR ''a'')]) False) =
      Some [TextItem (replicate 25000 CHR ''a'')]"
    by simp
  have h5: "concat (text_parts [TextItem (replicate 25000 CHR ''a'')]) = replicate 25000 CHR ''a''"
    by simp
  show ?thesis
    using long_output_is_truncated [OF h1 h2 h3 h4 h5] h2 h3 h5
    by (simp add: start_state_def)
qed

section \<open>Properties of the execution loop\<close>

subsection \<open>One iteration\<close>

lemma execution_loop_running:
  assumes "iteration < max_iterations"
  shows "execution_loop llm call_tool iteration st =
     (case llm (messages st) of
        LlmRaises e \<Rightarrow> (Raised e, Suc iteration, st)
      | Reply response \<Rightarrow>
          if tool_calls response = [] then
            (Break, Suc iteration,
             st\<lparr>messages := messages st @ [AIMessage response],
                 out := out st @ [report_header, content response, report_footer]\<rparr>)
          else
            (case run_tool_calls call_tool (tool_calls response)
                    (st\<lparr>messages := messages st @ [AIMessage response],
                        out := out st @
                          [step_line (Suc iteration) (length (tool_calls response))]\<rparr>) of
               (Some e, st2) \<Rightarrow> (ToolRaised e, Suc iteration, st2)
             | (None, st2) \<Rightarrow> execution_loop llm call_tool (Suc iteration) st2))"
  using assms by (subst execution_loop.simps) (simp add: Let_def split: llm_outcome.splits)

lemma execution_loop_cond_false:
  assumes "\<not> iteration < max_iterations"
  shows "execution_loop llm call_tool iteration st = (CondFalse, iteration, st)"
  using assms by (subst execution_loop.simps) simp

lemma execution_loop_tool_calls:
  assumes "iteration < max_iterations"
    and "llm (messages st) = Reply r"
    and "tool_calls r \<noteq> []"
    and "run_tool_calls call_tool (tool_calls r)
           (st\<lparr>messages := messages st @ [AIMessage r],
               out := out st @ [step_line (Suc iteration) (length (tool_calls r))]\<rparr>) =
         (raised, st')"
  shows "execution_loop llm call_tool iteration st =
     (case raised of
        Some e \<Rightarrow> (ToolRaised e, Suc iteration, st')
      | None \<Rightarrow> execution_loop llm call_tool (Suc iteration) st')"
  using assms by (simp add: execution_loop_running split: option.splits)

subsection \<open>The whole loop\<close>

text \<open>
  The counter never decreases and stays within the bound; it counts the assistant
  messages that the loop appends, but for the iteration in which the model raises; the
  history and the output only grow.
\<close>

lemma execution_loop_invariants:
  "execution_loop llm call_tool iteration st = (ex, iteration', st') \<Longrightarrow>
     iteration \<le> iteration' \<and>
     (iteration \<le> max_iterations \<longrightarrow> iteration' \<le> max_iterations) \<and>
     ai_count (messages st') + iteration + (case ex of Raised e \<Rightarrow> 1 | _ \<Rightarrow> 0) =
       ai_count (messages st) + iteration' \<and>
     (\<exists>ys. messages st' = messages st @ ys) \<and>
     (\<exists>ps. out st' = out st @ ps)"
proof (induction llm call_tool iteration st rule: execution_loop.induct)
  case (1 llm call_tool iteration st)
  show ?case
  proof (cases "iteration < max_iterations")
    case False
    then show ?thesis
      using "1.prems" by (simp add: execution_loop_cond_false)
  next
    case running: True
    show ?thesis
    proof (cases "llm (messages st)")
      case (LlmRaises e)
      then show ?thesis
        using running "1.prems" by (auto simp add: execution_loop_running)
    next
      case (Reply r)
      show ?thesis
      proof (cases "tool_calls r = []")
        case True
        then show ?thesis
          using running Reply "1.prems"
          by (auto simp add: execution_loop_running ai_count_append ai_count_simps)
      next
        case False
        let ?st1 = "st\<lparr>messages := messages st @ [AIMessage r],
            out := out st @ [step_line (Suc iteration) (length (tool_calls r))]\<rparr>"
        obtain raised st2 where
          tools: "run_tool_calls call_tool (tool_calls r) ?st1 = (raised, st2)"
          by (cases "run_tool_calls call_tool (tool_calls r) ?st1")
        from run_tool_calls_messages [OF tools] obtain zs ps where
          zs: "messages st2 = messages st @ AIMessage r # zs" and no_ai: "ai_count zs = 0"
          and ps: "out st2 = out st @ ps"
          by auto
        have count2: "ai_count (messages st2) = Suc (ai_count (messages st))"
          using zs no_ai by (simp add: ai_count_append ai_count_simps)
        have loop: "execution_loop llm call_tool iteration st =
            (case raised of
               Some e \<Rightarrow> (ToolRaised e, Suc iteration, st2)
             | None \<Rightarrow> execution_loop llm call_tool (Suc iteration) st2)"
          using execution_loop_tool_calls [where llm = llm and st = st and r = r
              and iteration = iteration and call_tool = call_tool and raised = raised
              and st' = st2] running Reply False tools
          by simp
        show ?thesis
        proof (cases raised)
          case (Some e)
          then have "ex = ToolRaised e" and "iteration' = Suc iteration" and "st' = st2"
            using loop "1.prems" by simp_all
          then show ?thesis
            using running count2 zs ps by simp
        next
          case None
          then have next_it: "execution_loop llm call_tool (Suc iteration) st2 =
              (ex, iteration', st')"
            using loop "1.prems" by simp
          have "Suc iteration \<le> iteration' \<and>
             (Suc iteration \<le> max_iterations \<longrightarrow> iteration' \<le> max_iterations) \<and>
             ai_count (messages st') + Suc iteration +
                 (case ex of Raised e \<Rightarrow> 1 | _ \<Rightarrow> 0) =
               ai_count (messages st2) + iteration' \<and>
             (\<exists>ys. messages st' = messages st2 @ ys) \<and>
             (\<exists>ps. out st' = out st2 @ ps)"
            using "1.IH" [where x = "iteration + 1" and ?x2.0 = r
                and xa = "st\<lparr>messages := messages st @ [AIMessage r]\<rparr>"
                and xb = raised and y = st2]
              running Reply False tools None next_it
            by simp
          then show ?thesis
            using running count2 zs ps by auto
        qed
      qed
    qed
  qed
qed

lemma execution_loop_reaches_loop_head:
  "reaches_loop_head llm iteration st (execution_loop llm call_tool iteration st)"
proof (cases "iteration < max_iterations")
  case False
  then show ?thesis
    by (simp add: reaches_loop_head_def execution_loop_cond_false)
next
  case running: True
  show ?thesis
  proof (cases "llm (messages st)")
    case (LlmRaises e)
    then show ?thesis
      using running by (simp add: reaches_loop_head_def execution_loop_running)
  next
    case (Reply r)
    have "Suc iteration \<le> fst (snd (execution_loop llm call_tool iteration st)) \<and>
        take (Suc (length (messages st)))
          (messages (snd (snd (execution_loop llm call_tool iteration st)))) =
        messages st @ [AIMessage r] \<and>
        take (length (out st)) (out (snd (snd (execution_loop llm call_tool iteration st)))) =
        out st"
    proof (cases "tool_calls r = []")
      case True
      then show ?thesis
        using running Reply by (simp add: execution_loop_running)
    next
      case False
      let ?st1 = "st\<lparr>messages := messages st @ [AIMessage r],
          out := out st @ [step_line (Suc iteration) (length (tool_calls r))]\<rparr>"
      obtain raised st2 where
        tools: "run_tool_calls call_tool (tool_calls r) ?st1 = (raised, st2)"
        by (cases "run_tool_calls call_tool (tool_calls r) ?st1")
      from run_tool_calls_messages [OF tools] obtain zs ps where
        zs: "messages st2 = messages st @ AIMessage r # zs" and ps: "out st2 = out st @ ps"
        by auto
      have loop: "execution_loop llm call_tool iteration st =
          (case raised of
             Some e \<Rightarrow> (ToolRaised e, Suc iteration, st2)
           | None \<Rightarrow> execution_loop llm call_tool (Suc iteration) st2)"
        using execution_loop_tool_calls [where llm = llm and st = st and r = r
            and iteration = iteration and call_tool = call_tool and raised = raised
            and st' = st2] running Reply False tools
        by simp
      show ?thesis
      proof (cases raised)
        case (Some e)
        then show ?thesis
          using loop zs ps by simp
      next
        case None
        obtain ex iteration' st' where
          next_it: "execution_loop llm call_tool (Suc iteration) st2 = (ex, iteration', st')"
          by (cases "execution_loop llm call_tool (Suc iteration) st2")
        from execution_loop_invariants [OF next_it] obtain ys qs where
          "Suc iteration \<le> iteration'" and "messages st' = messages st2 @ ys"
          and "out st' = out st2 @ qs"
          by blast
        then show ?thesis
          using loop None next_it zs ps by simp
      qed
    qed
    then show ?thesis
      using running Reply by (simp add: reaches_loop_head_def)
  qed
qed

subsection \<open>An iteration with tool calls\<close>

text \<open>
  C1. When the reply of an iteration has tool calls, the history after the loop over
  them is the history before the reply, the reply, and tool messages that carry, the
  i-th of them, the identifier and the name of the i-th call. When no call raises
  outside \<open>Exception\<close>, there is exactly one tool message for each call, and the loop
  comes to its head with that history: the next model invocation reads it and its reply
  is the next message after the tool messages, or the loop ends at the bound with it.
  When a call raises outside \<open>Exception\<close>, the run is left with the answers given so
  far and the model is not invoked again.
\<close>

theorem tool_results_follow_requests:
  assumes "iteration < max_iterations"
    and "llm (messages st) = Reply r"
    and "tool_calls r \<noteq> []"
    and "run_tool_calls call_tool (tool_calls r)
           (st\<lparr>messages := messages st @ [AIMessage r],
               out := out st @ [step_line (Suc iteration) (length (tool_calls r))]\<rparr>) =
         (raised, st')"
  shows "\<exists>zs.
     messages st' = messages st @ AIMessage r # zs \<and>
     (\<forall>i<length zs.
        \<exists>c. zs ! i = ToolMessage c (call_id (tool_calls r ! i)) (call_name (tool_calls r ! i))) \<and>
     (case raised of
        None \<Rightarrow>
          length zs = length (tool_calls r) \<and>
          reaches_loop_head llm (Suc iteration) st'
            (execution_loop llm call_tool iteration st)
      | Some e \<Rightarrow>
          length zs < length (tool_calls r) \<and>
          execution_loop llm call_tool iteration st = (ToolRaised e, Suc iteration, st'))"
proof -
  obtain ms s ou where st: "st = \<lparr>messages = ms, session = s, out = ou\<rparr>"
    by (cases st)
  obtain zs s1 raised1 where
    answers: "dispatch call_tool s (tool_calls r) = (zs, s1, raised1)"
    by (cases "dispatch call_tool s (tool_calls r)")
  have tools: "raised = raised1 \<and> messages st' = messages st @ AIMessage r # zs"
    using run_tool_calls_dispatch [OF answers, of "ms @ [AIMessage r]"
        "ou @ [step_line (Suc iteration) (length (tool_calls r))]"] assms(4)
    by (auto simp add: st)
  have nth: "\<forall>i<length zs.
      \<exists>c. zs ! i = ToolMessage c (call_id (tool_calls r ! i)) (call_name (tool_calls r ! i))"
    using dispatch_nth [OF answers] by blast
  have len: "case raised of None \<Rightarrow> length zs = length (tool_calls r)
      | Some e \<Rightarrow> length zs < length (tool_calls r)"
    using dispatch_length [OF answers] tools by simp
  have loop: "execution_loop llm call_tool iteration st =
      (case raised of
         Some e \<Rightarrow> (ToolRaised e, Suc iteration, st')
       | None \<Rightarrow> execution_loop llm call_tool (Suc iteration) st')"
    using execution_loop_tool_calls [where llm = llm and st = st and r = r
        and iteration = iteration and call_tool = call_tool and raised = raised
        and st' = st'] assms
    by simp
  have "case raised of
        None \<Rightarrow>
          length zs = length (tool_calls r) \<and>
          reaches_loop_head llm (Suc iteration) st'
            (execution_loop llm call_tool iteration st)
      | Some e \<Rightarrow>
          length zs < length (tool_calls r) \<and>
          execution_loop llm call_tool iteration st = (ToolRaised e, Suc iteration, st')"
  proof (cases raised)
    case None
    then show ?thesis
      using len loop
        execution_loop_reaches_loop_head [of llm "Suc iteration" st' call_tool]
      by simp
  next
    case (Some e)
    then show ?thesis
      using len loop by simp
  qed
  with tools nth show ?thesis by blast
qed

theorem tool_results_follow_requests_witness:
  "(0::nat) < max_iterations \<and>
   llm_two_requests_then_answer (messages start_state) = Reply two_requests \<and>
   tool_calls two_requests \<noteq> [] \<and>
   run_tool_calls session_click_fails (tool_calls two_requests)
     (start_state\<lparr>messages := messages start_state @ [AIMessage two_requests],
        out := out start_state @ [step_line (Suc 0) (length (tool_calls two_requests))]\<rparr>) =
     (None,
      \<lparr>messages =
         [HumanMessage ''Audit'', AIMessage two_requests,
          ToolMessage ''Error executing tool: element not found'' ''call_1'' ''click'',
          ToolMessage ''Hello'' ''call_2'' ''take_snapshot''],
       session = (),
       out = [step_line 1 2, executing_line ''click'', executing_line ''take_snapshot'']\<rparr>) \<and>
   reaches_loop_head llm_two_requests_then_answer (Suc 0)
     \<lparr>messages =
        [HumanMessage ''Audit'', AIMessage two_requests,
         ToolMessage ''Error executing tool: element not found'' ''call_1'' ''click'',
         ToolMessage ''Hello'' ''call_2'' ''take_snapshot''],
      session = (),
      out = [step_line 1 2, executing_line ''click'', executing_line ''take_snapshot'']\<rparr>
     (execution_loop llm_two_requests_then_answer session_click_fails 0 start_state) \<and>
   execution_loop llm_two_requests_then_answer session_click_fails 0 start_state =
     (Break, 2,
      \<lparr>messages =
         [HumanMessage ''Audit'', AIMessage two_requests,
          ToolMessage ''Error executing tool: element not found'' ''call_1'' ''click'',
          ToolMessage ''Hello'' ''call_2'' ''take_snapshot'',
          AIMessage final_answer],
       session = (),
       out = [step_line 1 2, executing_line ''click'', executing_line ''take_snapshot'',
              report_header, ''FINAL REPORT: a cookie banner is shown.'', report_footer]\<rparr>)"
proof -
  let ?st' = "\<lparr>messages =
        [HumanMessage ''Audit'', AIMessage two_requests,
         ToolMessage ''Error executing tool: element not found'' ''call_1'' ''click'',
         ToolMessage ''Hello'' ''call_2'' ''take_snapshot''],
      session = (),
      out = [step_line 1 2, executing_line ''click'', executing_line ''take_snapshot'']\<rparr>"
  have h1: "(0::nat) < max_iterations"
    by (simp add: max_iterations_def)
  have h2: "llm_two_requests_then_answer (messages start_state) = Reply two_requests"
    by (simp add: llm_two_requests_then_answer_def start_state_def ai_count_simps)
  have h3: "tool_calls two_requests \<noteq> []"
    by (simp add: two_requests_def)
  have h4: "run_tool_calls session_click_fails (tool_calls two_requests)
     (start_state\<lparr>messages := messages start_state @ [AIMessage two_requests],
        out := out start_state @ [step_line (Suc 0) (length (tool_calls two_requests))]\<rparr>) =
     (None, ?st')"
    by (simp add: start_state_def session_click_fails_def two_requests_def numeral_2_eq_2
        tool_content_str_def parse_content_def truncate_content_def Let_def)
  have "\<exists>zs. messages ?st' = messages start_state @ AIMessage two_requests # zs \<and>
     (\<forall>i<length zs.
        \<exists>c. zs ! i = ToolMessage c (call_id (tool_calls two_requests ! i))
               (call_name (tool_calls two_requests ! i))) \<and>
     (case None of
        None \<Rightarrow>
          length zs = length (tool_calls two_requests) \<and>
          reaches_loop_head llm_two_requests_then_answer (Suc 0) ?st'
            (execution_loop llm_two_requests_then_answer session_click_fails 0 start_state)
      | Some e \<Rightarrow>
          length zs < length (tool_calls two_requests) \<and>
          execution_loop llm_two_requests_then_answer session_click_fails 0 start_state =
            (ToolRaised e, Suc 0, ?st'))"
    using tool_results_follow_requests [where iteration = 0
        and llm = llm_two_requests_then_answer and st = start_state and r = two_requests
        and call_tool = session_click_fails and raised = None and st' = ?st']
      h1 h2 h3 h4
    by blast
  then have head: "reaches_loop_head llm_two_requests_then_answer (Suc 0) ?st'
      (execution_loop llm_two_requests_then_answer session_click_fails 0 start_state)"
    by auto
  have run: "execution_loop llm_two_requests_then_answer session_click_fails 0 start_state =
     (Break, 2,
      \<lparr>messages =
         [HumanMessage ''Audit'', AIMessage two_requests,
          ToolMessage ''Error executing tool: element not found'' ''call_1'' ''click'',
          ToolMessage ''Hello'' ''call_2'' ''take_snapshot'',
          AIMessage final_answer],
       session = (),
       out = [step_line 1 2, executing_line ''click'', executing_line ''take_snapshot'',
              report_header, ''FINAL REPORT: a cookie banner is shown.'', report_footer]\<rparr>)"
    by (simp add: execution_loop_running max_iterations_def llm_two_requests_then_answer_def
        start_state_def session_click_fails_def two_requests_def final_answer_def
        tool_content_str_def parse_content_def truncate_content_def ai_count_simps
        numeral_2_eq_2 Let_def)
  from h1 h2 h3 h4 head run show ?thesis
    by (intro conjI)
qed

text \<open>
  C4, the claim as stated: for every tool call that raises or returns an error, a tool
  message with \<open>Error executing tool: \<close> and the error message is appended and the
  loop goes on. A result returned with its error flag set is parsed like any returned
  result and gets no prefix, and an exception outside \<open>Exception\<close> leaves the loop
  and the run without a tool message for the request.
\<close>

theorem returned_error_and_uncaught_exception:
  "session_click_returns_error () ''click'' () =
     (CallReturns (CallToolResult (Some [TextItem ''element not found'']) True), ()) \<and>
   isError (CallToolResult (Some [TextItem ''element not found'']) True) \<and>
   run_tool_calls session_click_returns_error [ToolCall ''click'' () ''call_1''] start_state =
     (None,
      \<lparr>messages =
         [HumanMessage ''Audit'', ToolMessage ''element not found'' ''call_1'' ''click''],
       session = (),
       out = [executing_line ''click'']\<rparr>) \<and>
   ''element not found'' \<noteq> ''Error executing tool: element not found'' \<and>
   session_click_cancelled () ''click'' () = (CallRaisesBaseException '''', ()) \<and>
   execution_loop llm_two_requests_then_answer session_click_cancelled 0 start_state =
     (ToolRaised '''', 1,
      \<lparr>messages = [HumanMessage ''Audit'', AIMessage two_requests],
       session = (),
       out = [step_line 1 2, executing_line ''click'']\<rparr>)"
  by (simp add: execution_loop_running max_iterations_def llm_two_requests_then_answer_def
      start_state_def session_click_returns_error_def session_click_cancelled_def
      two_requests_def tool_content_str_def parse_content_def truncate_content_def
      ai_count_simps numeral_2_eq_2 Let_def)

text \<open>
  C4, amended. When a requested tool call raises an exception of class \<open>Exception\<close>,
  the loop does not abort: the tool message appended for that request holds
  \<open>Error executing tool: \<close> followed by the message of the exception, the remaining
  requests of the reply are executed after it, and, unless one of them raises outside
  \<open>Exception\<close>, the execution loop comes to its head for the next iteration with the
  history that holds that message.
\<close>

theorem tool_error_is_contained:
  assumes "iteration < max_iterations"
    and "llm (messages st) = Reply r"
    and "tool_calls r = before @ tc # after"
    and "run_tool_calls call_tool before
           (st\<lparr>messages := messages st @ [AIMessage r],
               out := out st @ [step_line (Suc iteration) (length (tool_calls r))]\<rparr>) =
         (None, st_before)"
    and "call_tool (session st_before) (call_name tc) (call_args tc) = (CallRaises e, s')"
    and "run_tool_calls call_tool after
           (st_before\<lparr>out := out st_before @ [executing_line (call_name tc)],
                      session := s',
                      messages := messages st_before @
                        [ToolMessage (''Error executing tool: '' @ e) (call_id tc)
                           (call_name tc)]\<rparr>) =
         (raised, st')"
  shows "run_tool_calls call_tool (tool_calls r)
       (st\<lparr>messages := messages st @ [AIMessage r],
           out := out st @ [step_line (Suc iteration) (length (tool_calls r))]\<rparr>) =
       (raised, st') \<and>
     (\<exists>zs. messages st' =
        messages st_before @
        ToolMessage (''Error executing tool: '' @ e) (call_id tc) (call_name tc) # zs) \<and>
     (case raised of
        None \<Rightarrow>
          reaches_loop_head llm (Suc iteration) st'
            (execution_loop llm call_tool iteration st)
      | Some e' \<Rightarrow>
          execution_loop llm call_tool iteration st = (ToolRaised e', Suc iteration, st'))"
proof -
  let ?st1 = "st\<lparr>messages := messages st @ [AIMessage r],
      out := out st @ [step_line (Suc iteration) (length (tool_calls r))]\<rparr>"
  have calls: "tool_calls r \<noteq> []"
    using assms(3) by simp
  have content: "tool_content_str (CallRaises e) = Inr (''Error executing tool: '' @ e)"
    by (simp add: tool_content_str_def)
  have tools: "run_tool_calls call_tool (tool_calls r) ?st1 = (raised, st')"
    using run_tool_calls_at [OF assms(3) assms(4) assms(5) content] assms(6) by simp
  from run_tool_calls_messages [OF assms(6)] have history:
    "\<exists>zs. messages st' =
        messages st_before @
        ToolMessage (''Error executing tool: '' @ e) (call_id tc) (call_name tc) # zs"
    by auto
  have loop: "execution_loop llm call_tool iteration st =
      (case raised of
         Some e' \<Rightarrow> (ToolRaised e', Suc iteration, st')
       | None \<Rightarrow> execution_loop llm call_tool (Suc iteration) st')"
    using execution_loop_tool_calls [where llm = llm and st = st and r = r
        and iteration = iteration and call_tool = call_tool and raised = raised
        and st' = st'] assms(1) assms(2) calls tools
    by simp
  have "case raised of
        None \<Rightarrow>
          reaches_loop_head llm (Suc iteration) st'
            (execution_loop llm call_tool iteration st)
      | Some e' \<Rightarrow>
          execution_loop llm call_tool iteration st = (ToolRaised e', Suc iteration, st')"
  proof (cases raised)
    case None
    then show ?thesis
      using loop execution_loop_reaches_loop_head [of llm "Suc iteration" st' call_tool]
      by simp
  next
    case (Some e')
    then show ?thesis
      using loop by simp
  qed
  with tools history show ?thesis by blast
qed

theorem tool_error_is_contained_witness:
  "(0::nat) < max_iterations \<and>
   llm_two_requests_then_answer (messages start_state) = Reply two_requests \<and>
   tool_calls two_requests =
     [] @ ToolCall ''click'' () ''call_1'' # [ToolCall ''take_snapshot'' () ''call_2''] \<and>
   session_click_fails () ''click'' () = (CallRaises ''element not found'', ()) \<and>
   run_tool_calls session_click_fails (tool_calls two_requests)
     (start_state\<lparr>messages := messages start_state @ [AIMessage two_requests],
        out := out start_state @ [step_line (Suc 0) (length (tool_calls two_requests))]\<rparr>) =
     (None,
      \<lparr>messages =
         [HumanMessage ''Audit'', AIMessage two_requests,
          ToolMessage ''Error executing tool: element not found'' ''call_1'' ''click'',
          ToolMessage ''Hello'' ''call_2'' ''take_snapshot''],
       session = (),
       out = [step_line 1 2, executing_line ''click'', executing_line ''take_snapshot'']\<rparr>) \<and>
   reaches_loop_head llm_two_requests_then_answer (Suc 0)
     \<lparr>messages =
        [HumanMessage ''Audit'', AIMessage two_requests,
         ToolMessage ''Error executing tool: element not found'' ''call_1'' ''click'',
         ToolMessage ''Hello'' ''call_2'' ''take_snapshot''],
      session = (),
      out = [step_line 1 2, executing_line ''click'', executing_line ''take_snapshot'']\<rparr>
     (execution_loop llm_two_requests_then_answer session_click_fails 0 start_state)"
proof -
  let ?tc = "ToolCall ''click'' () ''call_1'' :: unit tool_call"
  let ?after = "[ToolCall ''take_snapshot'' () ''call_2''] :: unit tool_call list"
  let ?st1 = "start_state\<lparr>messages := messages start_state @ [AIMessage two_requests],
      out := out start_state @ [step_line (Suc 0) (length (tool_calls two_requests))]\<rparr>"
  let ?st' = "\<lparr>messages =
        [HumanMessage ''Audit'', AIMessage two_requests,
         ToolMessage ''Error executing tool: element not found'' ''call_1'' ''click'',
         ToolMessage ''Hello'' ''call_2'' ''take_snapshot''],
      session = (),
      out = [step_line 1 2, executing_line ''click'', executing_line ''take_snapshot'']\<rparr>"
  have h1: "(0::nat) < max_iterations"
    by (simp add: max_iterations_def)
  have h2: "llm_two_requests_then_answer (messages start_state) = Reply two_requests"
    by (simp add: llm_two_requests_then_answer_def start_state_def ai_count_simps)
  have h3: "tool_calls two_requests = [] @ ?tc # ?after"
    by (simp add: two_requests_def)
  have h4: "run_tool_calls session_click_fails [] ?st1 = (None, ?st1)"
    by simp
  have h5: "session_click_fails (session ?st1) (call_name ?tc) (call_args ?tc) =
      (CallRaises ''element not found'', ())"
    by (simp add: session_click_fails_def)
  have h6: "run_tool_calls session_click_fails ?after
      (?st1\<lparr>out := out ?st1 @ [executing_line (call_name ?tc)],
            session := (),
            messages := messages ?st1 @
              [ToolMessage (''Error executing tool: '' @ ''element not found'') (call_id ?tc)
                 (call_name ?tc)]\<rparr>) =
      (None, ?st')"
    by (simp add: start_state_def session_click_fails_def two_requests_def numeral_2_eq_2
        tool_content_str_def parse_content_def truncate_content_def Let_def)
  have "run_tool_calls session_click_fails (tool_calls two_requests) ?st1 = (None, ?st') \<and>
     (\<exists>zs. messages ?st' =
        messages ?st1 @
        ToolMessage (''Error executing tool: '' @ ''element not found'') (call_id ?tc)
          (call_name ?tc) # zs) \<and>
     (case None of
        None \<Rightarrow>
          reaches_loop_head llm_two_requests_then_answer (Suc 0) ?st'
            (execution_loop llm_two_requests_then_answer session_click_fails 0 start_state)
      | Some e' \<Rightarrow>
          execution_loop llm_two_requests_then_answer session_click_fails 0 start_state =
            (ToolRaised e', Suc 0, ?st'))"
    by (rule tool_error_is_contained [where iteration = 0
        and llm = llm_two_requests_then_answer and st = start_state and r = two_requests
        and call_tool = session_click_fails and before = "[]" and tc = ?tc
        and after = ?after and st_before = ?st1 and e = "''element not found''"
        and s' = "()" and raised = None and st' = ?st', OF h1 h2 h3 h4 h5 h6])
  then have tools: "run_tool_calls session_click_fails (tool_calls two_requests) ?st1 =
      (None, ?st')"
    and head: "reaches_loop_head llm_two_requests_then_answer (Suc 0) ?st'
      (execution_loop llm_two_requests_then_answer session_click_fails 0 start_state)"
    by simp_all
  have call: "session_click_fails () ''click'' () = (CallRaises ''element not found'', ())"
    by (simp add: session_click_fails_def)
  from h1 h2 h3 call tools head show ?thesis
    by (intro conjI)
qed

text \<open>
  C10. A reply with tool calls is handled in the same way with and without text. Its
  tool calls are dispatched: the messages appended after the reply are the answers to
  its requests and the session is the one they leave. The full reply is what is
  appended. The lines printed are the step line and one line for each request that was
  invoked, so the text is not printed as a report. The loop then comes to its head for
  the next iteration instead of leaving by \<open>break\<close>; it leaves in that iteration only
  when a call raises outside \<open>Exception\<close>, with and without text alike.
\<close>

theorem text_beside_tool_calls_is_not_reported:
  assumes "iteration < max_iterations"
    and "llm (messages st) = Reply r"
    and "llm' (messages st) = Reply (r\<lparr>content := ''''\<rparr>)"
    and "tool_calls r \<noteq> []"
    and "dispatch call_tool (session st) (tool_calls r) = (zs, s', raised)"
  shows "let ou' = out st @ step_line (Suc iteration) (length (tool_calls r)) #
                 map (\<lambda>tc. executing_line (call_name tc)) (executed (tool_calls r) zs raised);
             st_text = \<lparr>messages = messages st @ AIMessage r # zs, session = s', out = ou'\<rparr>;
             st_blank = \<lparr>messages = messages st @ AIMessage (r\<lparr>content := ''''\<rparr>) # zs,
                         session = s', out = ou'\<rparr>
         in case raised of
              None \<Rightarrow>
                reaches_loop_head llm (Suc iteration) st_text
                  (execution_loop llm call_tool iteration st) \<and>
                reaches_loop_head llm' (Suc iteration) st_blank
                  (execution_loop llm' call_tool iteration st)
            | Some e \<Rightarrow>
                execution_loop llm call_tool iteration st =
                  (ToolRaised e, Suc iteration, st_text) \<and>
                execution_loop llm' call_tool iteration st =
                  (ToolRaised e, Suc iteration, st_blank)"
proof -
  obtain ms s ou where st: "st = \<lparr>messages = ms, session = s, out = ou\<rparr>"
    by (cases st)
  let ?ou = "out st @ step_line (Suc iteration) (length (tool_calls r)) #
      map (\<lambda>tc. executing_line (call_name tc)) (executed (tool_calls r) zs raised)"
  let ?blank = "r\<lparr>content := ''''\<rparr>"
  let ?st_text = "\<lparr>messages = messages st @ AIMessage r # zs, session = s', out = ?ou\<rparr>"
  let ?st_blank = "\<lparr>messages = messages st @ AIMessage ?blank # zs, session = s', out = ?ou\<rparr>"
  have answers: "dispatch call_tool s (tool_calls r) = (zs, s', raised)"
    using assms(5) by (simp add: st)
  have tools_text: "run_tool_calls call_tool (tool_calls r)
      (st\<lparr>messages := messages st @ [AIMessage r],
          out := out st @ [step_line (Suc iteration) (length (tool_calls r))]\<rparr>) =
      (raised, ?st_text)"
    using run_tool_calls_dispatch [OF answers, of "ms @ [AIMessage r]"
        "ou @ [step_line (Suc iteration) (length (tool_calls r))]"]
    by (simp add: st)
  have tools_blank: "run_tool_calls call_tool (tool_calls ?blank)
      (st\<lparr>messages := messages st @ [AIMessage ?blank],
          out := out st @ [step_line (Suc iteration) (length (tool_calls ?blank))]\<rparr>) =
      (raised, ?st_blank)"
    using run_tool_calls_dispatch [OF answers, of "ms @ [AIMessage ?blank]"
        "ou @ [step_line (Suc iteration) (length (tool_calls r))]"]
    by (simp add: st)
  have calls_blank: "tool_calls ?blank \<noteq> []"
    using assms(4) by simp
  have loop_text: "execution_loop llm call_tool iteration st =
      (case raised of
         Some e \<Rightarrow> (ToolRaised e, Suc iteration, ?st_text)
       | None \<Rightarrow> execution_loop llm call_tool (Suc iteration) ?st_text)"
    by (rule execution_loop_tool_calls [where llm = llm and st = st and r = r
        and iteration = iteration and call_tool = call_tool and raised = raised
        and st' = ?st_text, OF assms(1) assms(2) assms(4) tools_text])
  have loop_blank: "execution_loop llm' call_tool iteration st =
      (case raised of
         Some e \<Rightarrow> (ToolRaised e, Suc iteration, ?st_blank)
       | None \<Rightarrow> execution_loop llm' call_tool (Suc iteration) ?st_blank)"
    by (rule execution_loop_tool_calls [where llm = llm' and st = st and r = ?blank
        and iteration = iteration and call_tool = call_tool and raised = raised
        and st' = ?st_blank, OF assms(1) assms(3) calls_blank tools_blank])
  have "case raised of
      None \<Rightarrow>
        reaches_loop_head llm (Suc iteration) ?st_text
          (execution_loop llm call_tool iteration st) \<and>
        reaches_loop_head llm' (Suc iteration) ?st_blank
          (execution_loop llm' call_tool iteration st)
    | Some e \<Rightarrow>
        execution_loop llm call_tool iteration st = (ToolRaised e, Suc iteration, ?st_text) \<and>
        execution_loop llm' call_tool iteration st = (ToolRaised e, Suc iteration, ?st_blank)"
  proof (cases raised)
    case None
    then show ?thesis
      using loop_text loop_blank
        execution_loop_reaches_loop_head [of llm "Suc iteration" ?st_text call_tool]
        execution_loop_reaches_loop_head [of llm' "Suc iteration" ?st_blank call_tool]
      by simp
  next
    case (Some e)
    then show ?thesis
      using loop_text loop_blank by simp
  qed
  then show ?thesis
    by (simp add: Let_def)
qed

theorem text_beside_tool_calls_is_not_reported_witness:
  "(0::nat) < max_iterations \<and>
   llm_two_requests_then_answer (messages start_state) = Reply two_requests \<and>
   llm_blank_requests_then_answer (messages start_state) =
     Reply (two_requests\<lparr>content := ''''\<rparr>) \<and>
   content two_requests \<noteq> '''' \<and>
   tool_calls two_requests \<noteq> [] \<and>
   dispatch session_click_fails (session start_state) (tool_calls two_requests) =
     ([ToolMessage ''Error executing tool: element not found'' ''call_1'' ''click'',
       ToolMessage ''Hello'' ''call_2'' ''take_snapshot''], (), None) \<and>
   reaches_loop_head llm_two_requests_then_answer (Suc 0)
     \<lparr>messages =
        [HumanMessage ''Audit'', AIMessage two_requests,
         ToolMessage ''Error executing tool: element not found'' ''call_1'' ''click'',
         ToolMessage ''Hello'' ''call_2'' ''take_snapshot''],
      session = (),
      out = [step_line 1 2, executing_line ''click'', executing_line ''take_snapshot'']\<rparr>
     (execution_loop llm_two_requests_then_answer session_click_fails 0 start_state) \<and>
   reaches_loop_head llm_blank_requests_then_answer (Suc 0)
     \<lparr>messages =
        [HumanMessage ''Audit'', AIMessage (two_requests\<lparr>content := ''''\<rparr>),
         ToolMessage ''Error executing tool: element not found'' ''call_1'' ''click'',
         ToolMessage ''Hello'' ''call_2'' ''take_snapshot''],
      session = (),
      out = [step_line 1 2, executing_line ''click'', executing_line ''take_snapshot'']\<rparr>
     (execution_loop llm_blank_requests_then_answer session_click_fails 0 start_state)"
proof -
  let ?zs = "[ToolMessage ''Error executing tool: element not found'' ''call_1'' ''click'',
       ToolMessage ''Hello'' ''call_2'' ''take_snapshot''] :: unit message list"
  have h1: "(0::nat) < max_iterations"
    by (simp add: max_iterations_def)
  have h2: "llm_two_requests_then_answer (messages start_state) = Reply two_requests"
    by (simp add: llm_two_requests_then_answer_def start_state_def ai_count_simps)
  have h3: "llm_blank_requests_then_answer (messages start_state) =
      Reply (two_requests\<lparr>content := ''''\<rparr>)"
    by (simp add: llm_blank_requests_then_answer_def start_state_def ai_count_simps)
  have h4: "tool_calls two_requests \<noteq> []"
    by (simp add: two_requests_def)
  have h5: "dispatch session_click_fails (session start_state) (tool_calls two_requests) =
      (?zs, (), None)"
    by (simp add: start_state_def session_click_fails_def two_requests_def
        tool_content_str_def parse_content_def truncate_content_def)
  have has_text: "content two_requests \<noteq> ''''"
    by (simp add: two_requests_def)
  have ou: "out start_state @ step_line (Suc 0) (length (tool_calls two_requests)) #
      map (\<lambda>tc. executing_line (call_name tc)) (executed (tool_calls two_requests) ?zs None) =
      [step_line 1 2, executing_line ''click'', executing_line ''take_snapshot'']"
    by (simp add: start_state_def two_requests_def executed_def numeral_2_eq_2)
  have ms: "messages start_state = [HumanMessage ''Audit'']"
    by (simp add: start_state_def)
  have "reaches_loop_head llm_two_requests_then_answer (Suc 0)
     \<lparr>messages = messages start_state @ AIMessage two_requests # ?zs, session = (),
      out = out start_state @ step_line (Suc 0) (length (tool_calls two_requests)) #
        map (\<lambda>tc. executing_line (call_name tc)) (executed (tool_calls two_requests) ?zs None)\<rparr>
     (execution_loop llm_two_requests_then_answer session_click_fails 0 start_state) \<and>
   reaches_loop_head llm_blank_requests_then_answer (Suc 0)
     \<lparr>messages = messages start_state @ AIMessage (two_requests\<lparr>content := ''''\<rparr>) # ?zs,
      session = (),
      out = out start_state @ step_line (Suc 0) (length (tool_calls two_requests)) #
        map (\<lambda>tc. executing_line (call_name tc)) (executed (tool_calls two_requests) ?zs None)\<rparr>
     (execution_loop llm_blank_requests_then_answer session_click_fails 0 start_state)"
    using text_beside_tool_calls_is_not_reported [where iteration = 0
        and llm = llm_two_requests_then_answer and llm' = llm_blank_requests_then_answer
        and st = start_state and r = two_requests and call_tool = session_click_fails
        and zs = ?zs and s' = "()" and raised = None, OF h1 h2 h3 h4 h5]
    by (simp only: Let_def option.case)
  then have heads: "reaches_loop_head llm_two_requests_then_answer (Suc 0)
     \<lparr>messages =
        [HumanMessage ''Audit'', AIMessage two_requests,
         ToolMessage ''Error executing tool: element not found'' ''call_1'' ''click'',
         ToolMessage ''Hello'' ''call_2'' ''take_snapshot''],
      session = (),
      out = [step_line 1 2, executing_line ''click'', executing_line ''take_snapshot'']\<rparr>
     (execution_loop llm_two_requests_then_answer session_click_fails 0 start_state) \<and>
   reaches_loop_head llm_blank_requests_then_answer (Suc 0)
     \<lparr>messages =
        [HumanMessage ''Audit'', AIMessage (two_requests\<lparr>content := ''''\<rparr>),
         ToolMessage ''Error executing tool: element not found'' ''call_1'' ''click'',
         ToolMessage ''Hello'' ''call_2'' ''take_snapshot''],
      session = (),
      out = [step_line 1 2, executing_line ''click'', executing_line ''take_snapshot'']\<rparr>
     (execution_loop llm_blank_requests_then_answer session_click_fails 0 start_state)"
    by (simp only: ou ms append_Cons append_Nil)
  from h1 h2 h3 has_text h4 h5 heads show ?thesis
    by (intro conjI) simp_all
qed

section \<open>Properties of the run\<close>

text \<open>
  C2. In every run the final history holds at most 10 assistant messages and the loop
  body runs at most 10 times: the number of assistant messages is the value of the
  iteration counter, or one less when the last model invocation raised.
\<close>

theorem assistant_messages_bounded:
  "(case run_audit llm call_tool n_tools session0 of
      (ex, iteration, st) \<Rightarrow>
        ai_count (messages st) \<le> 10 \<and> iteration \<le> 10 \<and>
        ai_count (messages st) = (case ex of Raised e \<Rightarrow> iteration - 1 | _ \<Rightarrow> iteration))"
proof -
  let ?st0 = "\<lparr>messages =
        [SystemMessage GDPR_AUDITOR_PROMPT, HumanMessage (''Audit this URL: '' @ TARGET_URL)],
      session = session0,
      out =
        [''Connecting to Chrome DevTools MCP...'',
         ''Tools Loaded: '' @ str_nat n_tools @ '' available.'',
         ''\<newline>Starting Audit for '' @ TARGET_URL @ ''...\<newline>'']\<rparr>"
  obtain ex iteration st where
    loop: "execution_loop llm call_tool 0 ?st0 = (ex, iteration, st)"
    by (cases "execution_loop llm call_tool 0 ?st0")
  have counts: "iteration \<le> max_iterations \<and>
      ai_count (messages st) + (case ex of Raised e \<Rightarrow> 1 | _ \<Rightarrow> 0) = iteration"
    using execution_loop_invariants [OF loop] by (simp add: ai_count_simps)
  have bound: "ai_count (messages st) \<le> 10 \<and> iteration \<le> 10 \<and>
      ai_count (messages st) = (case ex of Raised e \<Rightarrow> iteration - 1 | _ \<Rightarrow> iteration)"
    using counts by (cases ex) (auto simp add: max_iterations_def)
  show ?thesis
    using loop bound by (cases ex) (simp_all add: run_audit_def)
qed

theorem assistant_messages_bounded_witness:
  "(case run_audit (llm_answers_after 12) session_hello 26 () of
      (ex, iteration, st) \<Rightarrow>
        ex = CondFalse \<and> iteration = 10 \<and> ai_count (messages st) = 10 \<and>
        ai_count (messages st) \<le> 10)"
proof -
  have "(case run_audit (llm_answers_after 12) session_hello 26 () of
      (ex, iteration, st) \<Rightarrow> ex = CondFalse \<and> iteration = 10 \<and> ai_count (messages st) = 10)"
    by (simp add: run_audit_def execution_loop_running execution_loop_cond_false
      max_iterations_def llm_answers_after_def session_hello_def snapshot_request_def
      final_answer_def tool_content_str_def parse_content_def truncate_content_def
      ai_count_simps ai_count_append Let_def)
  then show ?thesis
    using assistant_messages_bounded [of "llm_answers_after 12" session_hello 26 "()"]
    by (simp split: prod.splits)
qed

text \<open>
  C9. When the first reply of the model has no tool calls, the run leaves the loop by
  \<open>break\<close> in iteration 1, the history is the system message, the human message and
  that reply, the text of the reply is printed between the header and the footer of
  the report, and no diagnostic follows.
\<close>

theorem first_reply_without_tool_calls:
  assumes "llm [SystemMessage GDPR_AUDITOR_PROMPT, HumanMessage (''Audit this URL: '' @ TARGET_URL)] =
      Reply r"
    and "tool_calls r = []"
  shows "run_audit llm call_tool n_tools session0 =
     (Break, 1,
      \<lparr>messages =
         [SystemMessage GDPR_AUDITOR_PROMPT,
          HumanMessage (''Audit this URL: '' @ TARGET_URL),
          AIMessage r],
       session = session0,
       out =
         [''Connecting to Chrome DevTools MCP...'',
          ''Tools Loaded: '' @ str_nat n_tools @ '' available.'',
          ''\<newline>Starting Audit for '' @ TARGET_URL @ ''...\<newline>'',
          report_header, content r, report_footer]\<rparr>)"
  using assms
  by (simp add: run_audit_def execution_loop_running max_iterations_def)

theorem first_reply_without_tool_calls_witness:
  "llm_answers_after 0
     [SystemMessage GDPR_AUDITOR_PROMPT, HumanMessage (''Audit this URL: '' @ TARGET_URL)] =
     Reply final_answer \<and>
   tool_calls final_answer = [] \<and>
   run_audit (llm_answers_after 0) session_hello 26 () =
     (Break, 1,
      \<lparr>messages =
         [SystemMessage GDPR_AUDITOR_PROMPT,
          HumanMessage (''Audit this URL: '' @ TARGET_URL),
          AIMessage final_answer],
       session = (),
       out =
         [''Connecting to Chrome DevTools MCP...'',
          ''Tools Loaded: '' @ str_nat 26 @ '' available.'',
          ''\<newline>Starting Audit for '' @ TARGET_URL @ ''...\<newline>'',
          report_header, ''FINAL REPORT: a cookie banner is shown.'', report_footer]\<rparr>)"
proof -
  have h1: "llm_answers_after 0
      [SystemMessage GDPR_AUDITOR_PROMPT, HumanMessage (''Audit this URL: '' @ TARGET_URL)] =
      Reply final_answer"
    by (simp add: llm_answers_after_def)
  have h2: "tool_calls final_answer = []"
    by (simp add: final_answer_def)
  have "content final_answer = ''FINAL REPORT: a cookie banner is shown.''"
    by (simp add: final_answer_def)
  then show ?thesis
    using first_reply_without_tool_calls [where llm = "llm_answers_after 0" and r = final_answer
        and call_tool = session_hello and n_tools = 26 and ?session0.0 = "()"] h1 h2
    by simp
qed

text \<open>
  C3. The claim is that the diagnostic of line 120 is printed only when the bound is
  reached without a final answer. The check of line 119 reads the counter alone: when
  the model requests a tool in nine iterations and answers in the tenth, the loop
  leaves by \<open>break\<close> with the counter at 10, and the run prints the report and then
  the diagnostic.
\<close>

theorem answer_on_tenth_iteration_prints_diagnostic:
  "(case run_audit (llm_answers_after 9) session_hello 26 () of
      (ex, iteration, st) \<Rightarrow>
        ex = Break \<and> iteration = 10 \<and>
        drop 21 (out st) =
          [report_header, ''FINAL REPORT: a cookie banner is shown.'', report_footer,
           stuck_diagnostic])"
  by (simp add: run_audit_def execution_loop_running execution_loop_cond_false
      max_iterations_def llm_answers_after_def session_hello_def snapshot_request_def
      final_answer_def tool_content_str_def parse_content_def truncate_content_def
      ai_count_simps ai_count_append Let_def)

end
